theory Spec2Isabelle
  imports Main "HOL-Library.Word"
begin

section \<open>The Greeting Bridge of native-lib.cpp\<close>

text \<open>
  The repository is one exported C++ function:
  \<^verbatim>\<open>
  extern "C" JNIEXPORT jstring JNICALL
  Java_com_auraframes_fx_MainActivity_stringFromJNI(JNIEnv *env, jobject /* this */) {
      std::string hello = "Hello from Genesis C++ Core";
      return env->NewStringUTF(hello.c_str());
  }
  \<close>
  Its two statements touch four things that the embedding makes explicit: the native
  text (a string literal, a \<open>std::string\<close> and its \<open>c_str()\<close>), the native allocator
  that the \<open>std::string\<close> takes its buffer from, the environment handle \<open>env\<close> (a
  pointer to the runtime's table of interface functions), and the state of the managed
  runtime that \<open>NewStringUTF\<close> works on.
\<close>

subsection \<open>Native text: literals and null-terminated arrays\<close>

text \<open>
  A C++ \<open>char\<close> is a byte: the type \<^typ>\<open>char\<close>. A pointer to a null-terminated
  character array is modelled by the array it points to, a \<^typ>\<open>char list\<close>.
\<close>

definition NUL :: char where
  "NUL = CHR 0x00"

text \<open>A string literal denotes its characters followed by the terminating NUL.\<close>

definition string_literal :: "string \<Rightarrow> char list" where
  "string_literal s = s @ [NUL]"

text \<open>
  Reading a null-terminated array (\<open>strlen\<close> and every consumer of a \<open>const char *\<close>):
  the characters before the first NUL.
\<close>

definition cstring_chars :: "char list \<Rightarrow> string" where
  "cstring_chars p = takeWhile (\<lambda>c. c \<noteq> NUL) p"

text \<open>\<open>c_str()\<close> gives the contents of a \<open>std::string\<close> followed by a NUL.\<close>

definition c_str :: "string \<Rightarrow> char list" where
  "c_str s = s @ [NUL]"

text \<open>The literal of line 18.\<close>

definition greeting :: string where
  "greeting = ''Hello from Genesis C++ Core''"

subsection \<open>The state of the process\<close>

text \<open>
  A \<open>jchar\<close> is a UTF-16 code unit. A JNI reference is null or names an object; the
  managed heap holds the String objects, an object table that only grows, and
  \<open>Ref i\<close> names its \<open>i\<close>-th entry. The state also carries the pending-exception flag
  of the calling thread, the number of bytes the native allocator can still hand out,
  and \<open>process_state\<close>, which stands for everything else that is process-wide (globals,
  files).
\<close>

type_synonym jchar = "16 word"

datatype jobject = NULL | Ref nat

type_synonym jstring = jobject

record 'p runtime =
  strings :: "jchar list list"
  exception_pending :: bool
  native_free :: nat
  process_state :: 'p

definition string_at :: "'p runtime \<Rightarrow> jstring \<Rightarrow> jchar list option" where
  "string_at s r =
     (case r of
        NULL \<Rightarrow> None
      | Ref i \<Rightarrow> if i < length (strings s) then Some (strings s ! i) else None)"

subsection \<open>The native allocator and std::string\<close>

text \<open>
  \<open>operator new\<close> hands out \<open>n\<close> bytes when the allocator has them and fails otherwise
  (\<open>None\<close>: it throws \<open>std::bad_alloc\<close>); \<open>operator delete\<close> gives them back.
\<close>

definition operator_new :: "nat \<Rightarrow> 'p runtime \<Rightarrow> 'p runtime option" where
  "operator_new n s =
     (if n \<le> native_free s then Some (s\<lparr>native_free := native_free s - n\<rparr>) else None)"

definition operator_delete :: "nat \<Rightarrow> 'p runtime \<Rightarrow> 'p runtime" where
  "operator_delete n s = s\<lparr>native_free := native_free s + n\<rparr>"

text \<open>
  A \<open>std::string\<close> keeps a short text inside the object and a longer one in a heap
  buffer of its length and the terminator. How much fits inside is the standard
  library's choice (15 characters in libstdc++, 22 in libc++ on 64 bits; 15 here). The
  greeting has 27 characters, more than either, so building it takes 28 bytes from the
  allocator.
\<close>

definition small_string_capacity :: nat where
  "small_string_capacity = 15"

definition heap_bytes :: "string \<Rightarrow> nat" where
  "heap_bytes chars =
     (if length chars \<le> small_string_capacity then 0 else length chars + 1)"

text \<open>
  \<open>std::string(const char *)\<close> copies the characters before the first NUL into its
  buffer, and fails when the buffer cannot be allocated. The destructor, which runs
  when the function returns, releases the buffer.
\<close>

definition std_string :: "char list \<Rightarrow> 'p runtime \<Rightarrow> (string \<times> 'p runtime) option" where
  "std_string p s =
     map_option (Pair (cstring_chars p)) (operator_new (heap_bytes (cstring_chars p)) s)"

definition std_string_destroy :: "string \<Rightarrow> 'p runtime \<Rightarrow> 'p runtime" where
  "std_string_destroy chars s = operator_delete (heap_bytes chars) s"

subsection \<open>The environment handle\<close>

text \<open>
  \<open>JNIEnv\<close> is the runtime's table of interface functions; the bridge uses one slot.
  \<open>NewStringUTF\<close> is code of the host runtime, not of the repository, so the bridge
  takes it from \<open>env\<close> as the C++ does. A slot maps the state and the character array
  to the returned reference and the new state, or to \<open>None\<close> when the call does not
  come back (the runtime aborts or blocks).
\<close>

record 'p JNIEnv =
  NewStringUTF :: "'p runtime \<Rightarrow> char list \<Rightarrow> (jstring \<times> 'p runtime) option"

text \<open>
  \<open>env\<close> is a pointer: null, an address at which no \<open>JNIEnv\<close> lives, or a pointer to
  one. The C++ dereferences it; dereferencing a null or invalid pointer is undefined
  behaviour. A call of the bridge ends in one of four ways: it returns a value, it is
  left by \<open>std::bad_alloc\<close>, it is undefined, or it never comes back.
\<close>

datatype 'a pointer = nullptr | Invalid nat | Ptr 'a

datatype 'a outcome = Returns 'a | Throws_bad_alloc | Undefined_Behaviour | No_Return

subsection \<open>The bridge\<close>

text \<open>
  Line 18 builds the local string first; line 19 then dereferences \<open>env\<close>, calls the
  slot on \<open>hello.c_str()\<close> and returns its reference, and the local string is destroyed
  on the way out.
\<close>

definition Java_com_auraframes_fx_MainActivity_stringFromJNI ::
  "'p JNIEnv pointer \<Rightarrow> jobject \<Rightarrow> 'p runtime \<Rightarrow> (jstring \<times> 'p runtime) outcome" where
  "Java_com_auraframes_fx_MainActivity_stringFromJNI env thiz s =
     (case std_string (string_literal greeting) s of
        None \<Rightarrow> Throws_bad_alloc
      | Some (hello, s1) \<Rightarrow>
          (case env of
             nullptr \<Rightarrow> Undefined_Behaviour
           | Invalid a \<Rightarrow> Undefined_Behaviour
           | Ptr e \<Rightarrow>
               (case NewStringUTF e s1 (c_str hello) of
                  None \<Rightarrow> No_Return
                | Some (r, s2) \<Rightarrow> Returns (r, std_string_destroy hello s2))))"

abbreviation bridge ::
  "'p JNIEnv pointer \<Rightarrow> jobject \<Rightarrow> 'p runtime \<Rightarrow> (jstring \<times> 'p runtime) outcome" where
  "bridge \<equiv> Java_com_auraframes_fx_MainActivity_stringFromJNI"

text \<open>The name under which the function is exported (line 17, \<open>extern "C"\<close>).\<close>

definition exported_symbol :: string where
  "exported_symbol = ''Java_com_auraframes_fx_MainActivity_stringFromJNI''"

subsection \<open>What JNI promises of NewStringUTF\<close>

text \<open>
  Modelled from the spec: the string-construction facility of the interop boundary
  (JNI's \<open>NewStringUTF\<close>) is missing from the sources. The spec says it converts the
  native text buffer into a managed-runtime string object, that its only failure is an
  allocation or marshalling failure, and that a failure shows as a null reference or a
  fault raised by the host runtime. JNI fixes the encoding of the buffer as modified
  UTF-8: one byte \<open>0xxxxxxx\<close> for a code unit below \<open>0x80\<close>, two bytes
  \<open>110xxxxx 10xxxxxx\<close>, three bytes \<open>1110xxxx 10xxxxxx 10xxxxxx\<close>; any other byte
  sequence is malformed.
\<close>

definition is_ascii :: "char \<Rightarrow> bool" where
  "is_ascii c = ((of_char c :: nat) < 128)"

definition continuation :: "char \<Rightarrow> bool" where
  "continuation c = (128 \<le> (of_char c :: nat) \<and> (of_char c :: nat) < 192)"

fun mutf8_decode :: "char list \<Rightarrow> jchar list option" where
  "mutf8_decode [] = Some []"
| "mutf8_decode (x # bs) =
     (if is_ascii x then map_option ((#) (of_char x)) (mutf8_decode bs)
      else if 192 \<le> (of_char x :: nat) \<and> (of_char x :: nat) < 224 then
        (case bs of
           y # bs' \<Rightarrow>
             if continuation y
             then map_option ((#) (of_nat ((of_char x mod 32) * 64 + of_char y mod 64)))
                    (mutf8_decode bs')
             else None
         | [] \<Rightarrow> None)
      else if 224 \<le> (of_char x :: nat) \<and> (of_char x :: nat) < 240 then
        (case bs of
           y # z # bs' \<Rightarrow>
             if continuation y \<and> continuation z
             then map_option
                    ((#) (of_nat ((of_char x mod 16) * 4096 + (of_char y mod 64) * 64
                                   + of_char z mod 64)))
                    (mutf8_decode bs')
             else None
         | _ \<Rightarrow> None)
      else None)"

text \<open>
  The contract of a slot, for every state and every array: the call comes back; the
  rest of the process and the native allocator are left as they were; a null result
  comes with a pending exception and an unchanged heap; a non-null result is a new
  object, at the end of the object table, that holds the decoded characters before the
  first NUL, and the exception flag is as before.
\<close>

definition jni_conformant :: "'p JNIEnv \<Rightarrow> bool" where
  "jni_conformant e =
     (\<forall>s bytes.
        case NewStringUTF e s bytes of
          None \<Rightarrow> False
        | Some (r, s') \<Rightarrow>
            process_state s' = process_state s \<and>
            native_free s' = native_free s \<and>
            (case r of
               NULL \<Rightarrow> exception_pending s' \<and> strings s' = strings s
             | Ref i \<Rightarrow>
                 i = length (strings s) \<and>
                 exception_pending s' = exception_pending s \<and>
                 (case mutf8_decode (cstring_chars bytes) of
                    None \<Rightarrow> False
                  | Some units \<Rightarrow> strings s' = strings s @ [units])))"

text \<open>
  A slot that meets the contract: it allocates while the object table has fewer than
  \<open>capacity\<close> entries and the array is well-formed, and fails with an exception
  otherwise.
\<close>

definition heap_NewStringUTF ::
  "nat \<Rightarrow> 'p runtime \<Rightarrow> char list \<Rightarrow> (jstring \<times> 'p runtime) option" where
  "heap_NewStringUTF capacity s bytes =
     (case mutf8_decode (cstring_chars bytes) of
        None \<Rightarrow> Some (NULL, s\<lparr>exception_pending := True\<rparr>)
      | Some units \<Rightarrow>
          if length (strings s) < capacity
          then Some (Ref (length (strings s)), s\<lparr>strings := strings s @ [units]\<rparr>)
          else Some (NULL, s\<lparr>exception_pending := True\<rparr>))"

definition heap_env :: "nat \<Rightarrow> 'p JNIEnv" where
  "heap_env capacity = \<lparr>NewStringUTF = heap_NewStringUTF capacity\<rparr>"

text \<open>A process at start: an empty managed heap and 4096 bytes of native memory.\<close>

definition boot :: "unit runtime" where
  "boot = \<lparr>strings = [], exception_pending = False, native_free = 4096,
            process_state = ()\<rparr>"

subsection \<open>Callers\<close>

text \<open>
  A caller that invokes the bridge once for each of its references, one call after the
  other on the same state, and collects the results. A call that does not return ends
  the run the way it ended.
\<close>

fun invocations ::
  "'p JNIEnv pointer \<Rightarrow> jobject list \<Rightarrow> 'p runtime \<Rightarrow> (jstring list \<times> 'p runtime) outcome" where
  "invocations env [] s = Returns ([], s)"
| "invocations env (thiz # callers) s =
     (case bridge env thiz s of
        Returns (r, s') \<Rightarrow>
          (case invocations env callers s' of
             Returns (rs, s'') \<Rightarrow> Returns (r # rs, s'')
           | Throws_bad_alloc \<Rightarrow> Throws_bad_alloc
           | Undefined_Behaviour \<Rightarrow> Undefined_Behaviour
           | No_Return \<Rightarrow> No_Return)
      | Throws_bad_alloc \<Rightarrow> Throws_bad_alloc
      | Undefined_Behaviour \<Rightarrow> Undefined_Behaviour
      | No_Return \<Rightarrow> No_Return)"

subsection \<open>The naming rule of the exported symbol\<close>

text \<open>
  Modelled from the spec: the rule that derives the exported name is applied by the
  host runtime's linker and is missing from the sources (the source states it in a
  comment only). The spec gives the pattern
  \<open><bridge-prefix>_<fully-qualified-caller-type>_<method-name>\<close>, with every \<open>_\<close>
  inside the qualified type name escaped as \<open>_1\<close>, so that a package separator, which
  becomes \<open>_\<close>, is told apart from a literal underscore.
\<close>

fun escape_qualified :: "string \<Rightarrow> string" where
  "escape_qualified [] = []"
| "escape_qualified (c # cs) =
     (if c = CHR ''_'' then ''_1'' @ escape_qualified cs
      else if c = CHR ''.'' then CHR ''_'' # escape_qualified cs
      else c # escape_qualified cs)"

definition bridge_symbol :: "string \<Rightarrow> string \<Rightarrow> string \<Rightarrow> string" where
  "bridge_symbol bridge_prefix qualified_type method_name =
     bridge_prefix @ ''_'' @ escape_qualified qualified_type @ ''_'' @ method_name"

section \<open>Properties\<close>

subsection \<open>The native text\<close>

lemma cstring_chars_terminated:
  "NUL \<notin> set s \<Longrightarrow> cstring_chars (s @ [NUL]) = s"
  by (induction s) (auto simp: cstring_chars_def)

lemma NUL_notin_greeting: "NUL \<notin> set greeting"
  by (simp add: greeting_def NUL_def)

lemma c_str_read_back: "cstring_chars (c_str greeting) = greeting"
  by (simp add: c_str_def cstring_chars_terminated NUL_notin_greeting)

text \<open>Modified UTF-8 is the identity on ASCII: one code unit for each byte.\<close>

lemma mutf8_decode_ascii:
  "list_all is_ascii s \<Longrightarrow> mutf8_decode s = Some (map of_char s)"
  by (induction s) simp_all

lemma greeting_ascii: "list_all is_ascii greeting"
  by (simp add: greeting_def is_ascii_def)

lemma greeting_decoded:
  "mutf8_decode (cstring_chars (c_str greeting)) = Some (map of_char greeting)"
  by (simp add: c_str_read_back mutf8_decode_ascii greeting_ascii)

lemma greeting_units:
  "length (map of_char greeting :: jchar list) = 27 \<and>
   map unat (map of_char greeting :: jchar list) = map of_char greeting"
  by (simp add: greeting_def)

text \<open>The local string: 28 bytes from the allocator, or \<open>std::bad_alloc\<close>.\<close>

lemma heap_bytes_greeting: "heap_bytes greeting = 28"
  by (simp add: heap_bytes_def small_string_capacity_def greeting_def)

lemma std_string_greeting:
  "std_string (string_literal greeting) s =
     (if heap_bytes greeting \<le> native_free s
      then Some (greeting, s\<lparr>native_free := native_free s - heap_bytes greeting\<rparr>)
      else None)"
  by (simp add: std_string_def operator_new_def string_literal_def
      cstring_chars_terminated NUL_notin_greeting)

subsection \<open>One call\<close>

text \<open>The three kinds of handle.\<close>

lemma bridge_Ptr:
  "bridge (Ptr e) thiz s =
     (if heap_bytes greeting \<le> native_free s
      then case NewStringUTF e (s\<lparr>native_free := native_free s - heap_bytes greeting\<rparr>)
                  (c_str greeting) of
             None \<Rightarrow> No_Return
           | Some (r, s2) \<Rightarrow>
               Returns (r, s2\<lparr>native_free := native_free s2 + heap_bytes greeting\<rparr>)
      else Throws_bad_alloc)"
  by (simp add: Java_com_auraframes_fx_MainActivity_stringFromJNI_def std_string_greeting
      std_string_destroy_def operator_delete_def split: option.splits)

lemma bridge_nullptr:
  "bridge nullptr thiz s =
     (if heap_bytes greeting \<le> native_free s then Undefined_Behaviour else Throws_bad_alloc)"
  by (simp add: Java_com_auraframes_fx_MainActivity_stringFromJNI_def std_string_greeting)

lemma bridge_Invalid:
  "bridge (Invalid a) thiz s =
     (if heap_bytes greeting \<le> native_free s then Undefined_Behaviour else Throws_bad_alloc)"
  by (simp add: Java_com_auraframes_fx_MainActivity_stringFromJNI_def std_string_greeting)

text \<open>Whatever the bridge returns, it got from the slot behind a valid handle.\<close>

lemma bridge_ReturnsD:
  assumes "bridge env thiz s = Returns (r, s')"
  shows "\<exists>e s2. env = Ptr e \<and> heap_bytes greeting \<le> native_free s \<and>
           NewStringUTF e (s\<lparr>native_free := native_free s - heap_bytes greeting\<rparr>)
             (c_str greeting) = Some (r, s2) \<and>
           s' = s2\<lparr>native_free := native_free s2 + heap_bytes greeting\<rparr>"
proof (cases env)
  case nullptr
  with assms show ?thesis by (simp add: bridge_nullptr split: if_splits)
next
  case (Invalid a)
  with assms show ?thesis by (simp add: bridge_Invalid split: if_splits)
next
  case (Ptr e)
  with assms show ?thesis
    by (auto simp: bridge_Ptr split: if_splits option.splits)
qed

lemma heap_env_conformant: "jni_conformant (heap_env capacity)"
  by (auto simp: jni_conformant_def heap_env_def heap_NewStringUTF_def split: option.splits)

lemma conformant_returns:
  assumes "jni_conformant e"
  shows "\<exists>r s'. NewStringUTF e s bytes = Some (r, s')"
  using assms[unfolded jni_conformant_def, rule_format, of s bytes]
  by (cases "NewStringUTF e s bytes") auto

lemma conformant_success:
  assumes "jni_conformant e" and "NewStringUTF e s bytes = Some (Ref i, s')"
  shows "i = length (strings s) \<and> exception_pending s' = exception_pending s \<and>
         process_state s' = process_state s \<and> native_free s' = native_free s \<and>
         (\<exists>units. mutf8_decode (cstring_chars bytes) = Some units \<and>
                  strings s' = strings s @ [units])"
  using assms(1)[unfolded jni_conformant_def, rule_format, of s bytes] assms(2)
  by (auto split: option.splits)

lemma conformant_failure:
  assumes "jni_conformant e" and "NewStringUTF e s bytes = Some (NULL, s')"
  shows "exception_pending s' \<and> strings s' = strings s \<and>
         process_state s' = process_state s \<and> native_free s' = native_free s"
  using assms(1)[unfolded jni_conformant_def, rule_format, of s bytes] assms(2)
  by auto

lemma bridge_success:
  assumes "jni_conformant e" and "bridge (Ptr e) thiz s = Returns (Ref i, s')"
  shows "i = length (strings s) \<and> exception_pending s' = exception_pending s \<and>
         process_state s' = process_state s \<and>
         strings s' = strings s @ [map of_char greeting] \<and>
         native_free s' = native_free s \<and> heap_bytes greeting \<le> native_free s"
proof -
  from bridge_ReturnsD[OF assms(2)] obtain s2 where
    mem: "heap_bytes greeting \<le> native_free s" and
    call: "NewStringUTF e (s\<lparr>native_free := native_free s - heap_bytes greeting\<rparr>)
             (c_str greeting) = Some (Ref i, s2)" and
    s': "s' = s2\<lparr>native_free := native_free s2 + heap_bytes greeting\<rparr>"
    by auto
  from conformant_success[OF assms(1) call] mem show ?thesis
    by (auto simp: s' greeting_decoded)
qed

lemma bridge_failure:
  assumes "jni_conformant e" and "bridge (Ptr e) thiz s = Returns (NULL, s')"
  shows "exception_pending s' \<and> strings s' = strings s \<and>
         process_state s' = process_state s \<and>
         native_free s' = native_free s \<and> heap_bytes greeting \<le> native_free s"
proof -
  from bridge_ReturnsD[OF assms(2)] obtain s2 where
    mem: "heap_bytes greeting \<le> native_free s" and
    call: "NewStringUTF e (s\<lparr>native_free := native_free s - heap_bytes greeting\<rparr>)
             (c_str greeting) = Some (NULL, s2)" and
    s': "s' = s2\<lparr>native_free := native_free s2 + heap_bytes greeting\<rparr>"
    by auto
  from conformant_failure[OF assms(1) call] mem show ?thesis
    by (auto simp: s')
qed

lemma bridge_returned_frame:
  assumes "jni_conformant e" and "bridge (Ptr e) thiz s = Returns (r, s')"
  shows "native_free s' = native_free s \<and> process_state s' = process_state s \<and>
         heap_bytes greeting \<le> native_free s"
  using assms bridge_success[of e thiz s _ s'] bridge_failure[of e thiz s s']
  by (cases r) auto

lemma bridge_conformant_returns:
  assumes "jni_conformant e" and "heap_bytes greeting \<le> native_free s"
  shows "\<exists>r s'. bridge (Ptr e) thiz s = Returns (r, s')"
proof -
  from conformant_returns[OF assms(1)] obtain r s2 where
    "NewStringUTF e (s\<lparr>native_free := native_free s - heap_bytes greeting\<rparr>)
       (c_str greeting) = Some (r, s2)"
    by blast
  with assms(2) show ?thesis by (simp add: bridge_Ptr)
qed

text \<open>The bridge on the sample slot.\<close>

lemma bridge_heap_env:
  "bridge (Ptr (heap_env capacity)) thiz s =
     (if native_free s < heap_bytes greeting then Throws_bad_alloc
      else if length (strings s) < capacity
      then Returns (Ref (length (strings s)), s\<lparr>strings := strings s @ [map of_char greeting]\<rparr>)
      else Returns (NULL, s\<lparr>exception_pending := True\<rparr>))"
  by (simp add: bridge_Ptr heap_env_def heap_NewStringUTF_def greeting_decoded not_less)

subsection \<open>A run of calls\<close>

lemma invocations_return:
  assumes "jni_conformant e"
  shows "heap_bytes greeting \<le> native_free s \<Longrightarrow>
         \<exists>rs s'. invocations (Ptr e) callers s = Returns (rs, s') \<and> length rs = length callers"
proof (induction callers arbitrary: s)
  case Nil
  show ?case by simp
next
  case (Cons thiz callers)
  from bridge_conformant_returns[OF assms Cons.prems] obtain r s1 where
    call: "bridge (Ptr e) thiz s = Returns (r, s1)"
    by blast
  from bridge_returned_frame[OF assms call] Cons.prems
  have "heap_bytes greeting \<le> native_free s1" by simp
  from Cons.IH[OF this] obtain rs s' where
    "invocations (Ptr e) callers s1 = Returns (rs, s')" "length rs = length callers"
    by blast
  then show ?case by (simp add: call)
qed

lemma invocations_frame:
  assumes "jni_conformant e"
  shows "invocations (Ptr e) callers s = Returns (rs, s') \<Longrightarrow>
         length rs = length callers \<and>
         process_state s' = process_state s \<and>
         take (length (strings s)) (strings s') = strings s \<and>
         length (strings s') = length (strings s) + length (filter (\<lambda>r. r \<noteq> NULL) rs) \<and>
         (NULL \<notin> set rs \<longrightarrow> exception_pending s' = exception_pending s) \<and>
         native_free s' = native_free s"
proof (induction callers arbitrary: s rs)
  case Nil
  then show ?case by auto
next
  case (Cons thiz callers)
  from Cons.prems obtain r s1 rs1 where
    call: "bridge (Ptr e) thiz s = Returns (r, s1)" and
    rest: "invocations (Ptr e) callers s1 = Returns (rs1, s')" and
    rs: "rs = r # rs1"
    by (auto split: outcome.splits prod.splits)
  note IH = Cons.IH[OF rest]
  show ?case
  proof (cases r)
    case NULL
    with call bridge_failure[OF assms, of thiz s s1] IH rs show ?thesis by simp
  next
    case (Ref i)
    with call bridge_success[OF assms, of thiz s i s1] have
      s1: "strings s1 = strings s @ [map of_char greeting]"
        "process_state s1 = process_state s" "exception_pending s1 = exception_pending s"
        "native_free s1 = native_free s"
      by simp_all
    from IH have "take (length (strings s1)) (strings s') = strings s1" by simp
    then have "take (length (strings s)) (take (length (strings s1)) (strings s')) =
               take (length (strings s)) (strings s1)"
      by simp
    then have "take (length (strings s)) (strings s') = strings s"
      by (simp add: s1 min_def)
    with IH rs Ref s1 show ?thesis by simp
  qed
qed

subsection \<open>The returned text\<close>

text \<open>
  C1. For every invocation with a valid context handle (a non-null handle whose slot
  meets the contract), when string construction does not fail (the returned reference
  is not null), the bridge returns a managed string whose content equals the literal
  "Hello from Genesis C++ Core" byte for byte: one code unit for each byte of the
  literal, of the same value.
\<close>

theorem bridge_returns_greeting:
  assumes "jni_conformant e"
    and "bridge (Ptr e) thiz s = Returns (r, s')"
    and "r \<noteq> NULL"
  shows "string_at s' r = Some (map of_char greeting)"
proof -
  from assms(3) obtain i where r: "r = Ref i" by (cases r) auto
  from bridge_success[OF assms(1) assms(2)[unfolded r]]
  have "i = length (strings s)" and "strings s' = strings s @ [map of_char greeting]"
    by simp_all
  then show ?thesis by (simp add: string_at_def r)
qed

theorem bridge_returns_greeting_witness:
  "jni_conformant (heap_env 8 :: unit JNIEnv) \<and>
   bridge (Ptr (heap_env 8)) (Ref 5) boot =
     Returns (Ref 0, boot\<lparr>strings := [map of_char greeting]\<rparr>) \<and>
   Ref 0 \<noteq> NULL \<and>
   string_at (boot\<lparr>strings := [map of_char greeting]\<rparr>) (Ref 0) =
     Some [72, 101, 108, 108, 111, 32, 102, 114, 111, 109, 32, 71, 101, 110, 101, 115, 105,
           115, 32, 67, 43, 43, 32, 67, 111, 114, 101]"
proof -
  have c: "jni_conformant (heap_env 8 :: unit JNIEnv)"
    by (rule heap_env_conformant)
  have b: "bridge (Ptr (heap_env 8)) (Ref 5) boot =
             Returns (Ref 0, boot\<lparr>strings := [map of_char greeting]\<rparr>)"
    by (simp add: bridge_heap_env heap_bytes_greeting boot_def)
  have n: "Ref 0 \<noteq> NULL" by simp
  from bridge_returns_greeting[OF c b n] c b n show ?thesis
    by (simp add: greeting_def)
qed

text \<open>
  C2. The result of the bridge is independent of both arguments. The caller reference
  is never read: two calls that differ only in it have the same outcome. For any two
  invocations, with any valid context handles, any caller references and any runtime
  states, the returned strings have equal contents. No invocation alters the result of
  another: after a later invocation the string returned by an earlier one is still in
  place, and the later one returns a different reference.
\<close>

theorem bridge_independent_of_arguments:
  "bridge env thiz1 s = bridge env thiz2 s \<and>
   (jni_conformant e1 \<and> jni_conformant e2 \<and>
    bridge (Ptr e1) thiz1 s1 = Returns (r1, s1') \<and>
    bridge (Ptr e2) thiz2 s2 = Returns (r2, s2') \<and>
    r1 \<noteq> NULL \<and> r2 \<noteq> NULL
    \<longrightarrow> string_at s1' r1 = string_at s2' r2) \<and>
   (jni_conformant e1 \<and> jni_conformant e3 \<and>
    bridge (Ptr e1) thiz1 s1 = Returns (r1, s1') \<and>
    bridge (Ptr e3) thiz3 s1' = Returns (r3, s3) \<and>
    r1 \<noteq> NULL
    \<longrightarrow> string_at s3 r1 = string_at s1' r1 \<and> r3 \<noteq> r1)"
proof (intro conjI impI)
  show "bridge env thiz1 s = bridge env thiz2 s"
    by (simp add: Java_com_auraframes_fx_MainActivity_stringFromJNI_def)
next
  assume a: "jni_conformant e1 \<and> jni_conformant e2 \<and>
    bridge (Ptr e1) thiz1 s1 = Returns (r1, s1') \<and>
    bridge (Ptr e2) thiz2 s2 = Returns (r2, s2') \<and>
    r1 \<noteq> NULL \<and> r2 \<noteq> NULL"
  then obtain i j where r: "r1 = Ref i" "r2 = Ref j"
    by (cases r1; cases r2) auto
  from a r bridge_success[of e1 thiz1 s1 i s1'] bridge_success[of e2 thiz2 s2 j s2']
  show "string_at s1' r1 = string_at s2' r2"
    by (simp add: string_at_def)
next
  assume a: "jni_conformant e1 \<and> jni_conformant e3 \<and>
    bridge (Ptr e1) thiz1 s1 = Returns (r1, s1') \<and>
    bridge (Ptr e3) thiz3 s1' = Returns (r3, s3) \<and>
    r1 \<noteq> NULL"
  then obtain i where r1: "r1 = Ref i" by (cases r1) auto
  from a r1 bridge_success[of e1 thiz1 s1 i s1']
  have i: "i < length (strings s1')" by simp
  show "string_at s3 r1 = string_at s1' r1"
  proof (cases r3)
    case NULL
    with a bridge_failure[of e3 thiz3 s1' s3] show ?thesis
      by (simp add: string_at_def r1)
  next
    case (Ref j)
    with a bridge_success[of e3 thiz3 s1' j s3] i show ?thesis
      by (simp add: string_at_def r1 nth_append)
  qed
  show "r3 \<noteq> r1"
  proof (cases r3)
    case NULL
    then show ?thesis by (simp add: r1)
  next
    case (Ref j)
    with a bridge_success[of e3 thiz3 s1' j s3] i show ?thesis
      by (simp add: r1)
  qed
qed

theorem bridge_independent_of_arguments_witness:
  "bridge (Ptr (heap_env 8)) (Ref 5) boot = bridge (Ptr (heap_env 8)) NULL boot \<and>
   jni_conformant (heap_env 8 :: unit JNIEnv) \<and> jni_conformant (heap_env 3 :: unit JNIEnv) \<and>
   bridge (Ptr (heap_env 8)) (Ref 5) boot =
     Returns (Ref 0, boot\<lparr>strings := [map of_char greeting]\<rparr>) \<and>
   bridge (Ptr (heap_env 3)) NULL (boot\<lparr>strings := [[7]]\<rparr>) =
     Returns (Ref 1, boot\<lparr>strings := [[7], map of_char greeting]\<rparr>) \<and>
   Ref 0 \<noteq> NULL \<and> Ref 1 \<noteq> NULL \<and>
   string_at (boot\<lparr>strings := [map of_char greeting]\<rparr>) (Ref 0) =
     string_at (boot\<lparr>strings := [[7], map of_char greeting]\<rparr>) (Ref 1) \<and>
   bridge (Ptr (heap_env 3)) (Ref 9) (boot\<lparr>strings := [map of_char greeting]\<rparr>) =
     Returns (Ref 1, boot\<lparr>strings := [map of_char greeting, map of_char greeting]\<rparr>) \<and>
   string_at (boot\<lparr>strings := [map of_char greeting, map of_char greeting]\<rparr>) (Ref 0) =
     string_at (boot\<lparr>strings := [map of_char greeting]\<rparr>) (Ref 0) \<and>
   Ref 1 \<noteq> Ref 0"
proof -
  have c: "jni_conformant (heap_env 8 :: unit JNIEnv)" "jni_conformant (heap_env 3 :: unit JNIEnv)"
    by (rule heap_env_conformant)+
  have b1: "bridge (Ptr (heap_env 8)) (Ref 5) boot =
     Returns (Ref 0, boot\<lparr>strings := [map of_char greeting]\<rparr>)"
    by (simp add: bridge_heap_env heap_bytes_greeting boot_def)
  have b2: "bridge (Ptr (heap_env 3)) NULL (boot\<lparr>strings := [[7]]\<rparr>) =
     Returns (Ref 1, boot\<lparr>strings := [[7], map of_char greeting]\<rparr>)"
    by (simp add: bridge_heap_env heap_bytes_greeting boot_def)
  have b3: "bridge (Ptr (heap_env 3)) (Ref 9) (boot\<lparr>strings := [map of_char greeting]\<rparr>) =
     Returns (Ref 1, boot\<lparr>strings := [map of_char greeting, map of_char greeting]\<rparr>)"
    by (simp add: bridge_heap_env heap_bytes_greeting boot_def)
  from bridge_independent_of_arguments[of "Ptr (heap_env 8)" "Ref 5" boot NULL
      "heap_env 8" "heap_env 3" boot "Ref 0" "boot\<lparr>strings := [map of_char greeting]\<rparr>"
      "boot\<lparr>strings := [[7]]\<rparr>" "Ref 1" "boot\<lparr>strings := [[7], map of_char greeting]\<rparr>"
      "heap_env 3" "Ref 9" "Ref 1"
      "boot\<lparr>strings := [map of_char greeting, map of_char greeting]\<rparr>"]
    c b1 b2 b3
  show ?thesis by simp
qed

text \<open>
  C10. The greeting literal has 27 characters, all of them ASCII and none of them NUL.
  So marshalling it through the null-terminated conversion transfers all of it: reading
  the literal's array up to the first NUL gives the literal back, and its modified
  UTF-8 decoding is one code unit for each character; what the bridge hands to
  \<open>NewStringUTF\<close>, whatever the slot, is the 27 characters followed by the one NUL; and
  the string the bridge returns from a valid handle has 27 code units, each with the
  value of the byte in its place. Nothing is cut off and nothing is altered.
\<close>

theorem greeting_marshalled_intact:
  "length greeting = 27 \<and>
   list_all (\<lambda>c. is_ascii c \<and> c \<noteq> NUL) greeting \<and>
   cstring_chars (greeting @ [NUL]) = greeting \<and>
   mutf8_decode (cstring_chars (greeting @ [NUL])) = Some (map of_char greeting) \<and>
   (heap_bytes greeting \<le> native_free s \<longrightarrow>
      bridge (Ptr e) thiz s =
        (case NewStringUTF e (s\<lparr>native_free := native_free s - heap_bytes greeting\<rparr>)
                (greeting @ [NUL]) of
           None \<Rightarrow> No_Return
         | Some (r, s2) \<Rightarrow>
             Returns (r, s2\<lparr>native_free := native_free s2 + heap_bytes greeting\<rparr>))) \<and>
   (jni_conformant e \<and> bridge (Ptr e) thiz s = Returns (r, s') \<and> r \<noteq> NULL \<longrightarrow>
      (\<exists>units. string_at s' r = Some units \<and> length units = 27 \<and>
               map unat units = map of_char greeting))"
proof (intro conjI impI)
  show "length greeting = 27"
    by (simp add: greeting_def)
  show "list_all (\<lambda>c. is_ascii c \<and> c \<noteq> NUL) greeting"
    by (simp add: greeting_def is_ascii_def NUL_def)
  show readback: "cstring_chars (greeting @ [NUL]) = greeting"
    by (simp add: cstring_chars_terminated NUL_notin_greeting)
  show "mutf8_decode (cstring_chars (greeting @ [NUL])) = Some (map of_char greeting)"
    by (simp add: readback mutf8_decode_ascii greeting_ascii)
next
  assume "heap_bytes greeting \<le> native_free s"
  then show "bridge (Ptr e) thiz s =
        (case NewStringUTF e (s\<lparr>native_free := native_free s - heap_bytes greeting\<rparr>)
                (greeting @ [NUL]) of
           None \<Rightarrow> No_Return
         | Some (r, s2) \<Rightarrow>
             Returns (r, s2\<lparr>native_free := native_free s2 + heap_bytes greeting\<rparr>))"
    by (simp add: bridge_Ptr c_str_def)
next
  assume a: "jni_conformant e \<and> bridge (Ptr e) thiz s = Returns (r, s') \<and> r \<noteq> NULL"
  then obtain i where r: "r = Ref i" by (cases r) auto
  from a r bridge_success[of e thiz s i s']
  have "string_at s' r = Some (map of_char greeting)"
    by (simp add: string_at_def)
  with greeting_units
  show "\<exists>units. string_at s' r = Some units \<and> length units = 27 \<and>
                map unat units = map of_char greeting"
    by blast
qed

theorem greeting_marshalled_intact_witness:
  "heap_bytes greeting \<le> native_free boot \<and>
   jni_conformant (heap_env 2 :: unit JNIEnv) \<and>
   bridge (Ptr (heap_env 2)) (Ref 3) boot =
     Returns (Ref 0, boot\<lparr>strings := [map of_char greeting]\<rparr>) \<and>
   Ref 0 \<noteq> NULL \<and>
   string_at (boot\<lparr>strings := [map of_char greeting]\<rparr>) (Ref 0) =
     Some [72, 101, 108, 108, 111, 32, 102, 114, 111, 109, 32, 71, 101, 110, 101, 115, 105,
           115, 32, 67, 43, 43, 32, 67, 111, 114, 101] \<and>
   (\<exists>units. string_at (boot\<lparr>strings := [map of_char greeting]\<rparr>) (Ref 0) = Some units \<and>
            length units = 27 \<and> map unat units = map of_char greeting)"
proof -
  have m: "heap_bytes greeting \<le> native_free boot"
    by (simp add: heap_bytes_greeting boot_def)
  have c: "jni_conformant (heap_env 2 :: unit JNIEnv)"
    by (rule heap_env_conformant)
  have b: "bridge (Ptr (heap_env 2)) (Ref 3) boot =
             Returns (Ref 0, boot\<lparr>strings := [map of_char greeting]\<rparr>)"
    by (simp add: bridge_heap_env heap_bytes_greeting boot_def)
  have n: "Ref 0 \<noteq> NULL" by simp
  have v: "string_at (boot\<lparr>strings := [map of_char greeting]\<rparr>) (Ref 0) =
     Some [72, 101, 108, 108, 111, 32, 102, 114, 111, 109, 32, 71, 101, 110, 101, 115, 105,
           115, 32, 67, 43, 43, 32, 67, 111, 114, 101]"
    by (simp add: string_at_def greeting_def)
  from greeting_marshalled_intact[of boot "heap_env 2" "Ref 3" "Ref 0"
      "boot\<lparr>strings := [map of_char greeting]\<rparr>"] m c b n
  have "\<exists>units. string_at (boot\<lparr>strings := [map of_char greeting]\<rparr>) (Ref 0) = Some units \<and>
            length units = 27 \<and> map unat units = map of_char greeting"
    by blast
  with m c b n v show ?thesis by blast
qed

subsection \<open>Failure\<close>

text \<open>
  C3, as the claim states it, does not hold: failure inside the string-construction
  facility is not the only failure of the bridge. With one byte too few of native
  memory the local string of line 18 cannot be built and the call is left by
  \<open>std::bad_alloc\<close>, although the facility, called on that very state, would have
  returned a string.
\<close>

theorem bridge_fails_outside_facility:
  "bridge (Ptr (heap_env 8 :: unit JNIEnv)) (Ref 5) (boot\<lparr>native_free := 27\<rparr>) =
     Throws_bad_alloc \<and>
   NewStringUTF (heap_env 8 :: unit JNIEnv) (boot\<lparr>native_free := 27\<rparr>) (c_str greeting) =
     Some (Ref 0, boot\<lparr>native_free := 27, strings := [map of_char greeting]\<rparr>)"
proof
  show "bridge (Ptr (heap_env 8 :: unit JNIEnv)) (Ref 5) (boot\<lparr>native_free := 27\<rparr>) =
     Throws_bad_alloc"
    by (simp add: bridge_heap_env heap_bytes_greeting)
  show "NewStringUTF (heap_env 8 :: unit JNIEnv) (boot\<lparr>native_free := 27\<rparr>)
          (c_str greeting) =
     Some (Ref 0, boot\<lparr>native_free := 27, strings := [map of_char greeting]\<rparr>)"
    by (simp add: heap_env_def heap_NewStringUTF_def greeting_decoded boot_def)
qed

text \<open>
  C3, amended. With a valid handle the bridge fails in exactly two ways, and handles
  neither: the local string cannot be allocated (the call is left by
  \<open>std::bad_alloc\<close>, whatever the handle, so the facility is never reached), or the
  string-construction facility fails. Whatever the bridge returns is the result of
  its one call of the facility on the greeting, unmodified: the same reference, and the
  facility's state with only the local buffer released (no retry, no fallback value,
  no error value of its own, none at a null handle either). So a failure of the
  facility surfaces as it left it: the null reference with the host runtime's pending
  exception, and no string object in its place.
\<close>

theorem bridge_failure_modes:
  "(bridge env thiz s = Returns (r, s') \<longrightarrow>
      (\<exists>e s2. env = Ptr e \<and>
         NewStringUTF e (s\<lparr>native_free := native_free s - heap_bytes greeting\<rparr>)
           (c_str greeting) = Some (r, s2) \<and>
         s' = s2\<lparr>native_free := native_free s2 + heap_bytes greeting\<rparr>)) \<and>
   (native_free s < heap_bytes greeting \<longrightarrow> bridge env thiz s = Throws_bad_alloc) \<and>
   (jni_conformant e \<and> heap_bytes greeting \<le> native_free s \<longrightarrow>
      (\<exists>r s'. bridge (Ptr e) thiz s = Returns (r, s'))) \<and>
   (jni_conformant e \<and> bridge (Ptr e) thiz s = Returns (NULL, s') \<longrightarrow>
      exception_pending s' \<and> strings s' = strings s \<and>
      process_state s' = process_state s)"
proof (intro conjI impI)
  assume "bridge env thiz s = Returns (r, s')"
  from bridge_ReturnsD[OF this]
  show "\<exists>e s2. env = Ptr e \<and>
         NewStringUTF e (s\<lparr>native_free := native_free s - heap_bytes greeting\<rparr>)
           (c_str greeting) = Some (r, s2) \<and>
         s' = s2\<lparr>native_free := native_free s2 + heap_bytes greeting\<rparr>"
    by blast
next
  assume "native_free s < heap_bytes greeting"
  then show "bridge env thiz s = Throws_bad_alloc"
    by (cases env) (simp_all add: bridge_nullptr bridge_Invalid bridge_Ptr)
next
  assume "jni_conformant e \<and> heap_bytes greeting \<le> native_free s"
  then show "\<exists>r s'. bridge (Ptr e) thiz s = Returns (r, s')"
    by (simp add: bridge_conformant_returns)
next
  assume a: "jni_conformant e \<and> bridge (Ptr e) thiz s = Returns (NULL, s')"
  with bridge_failure[of e thiz s s']
  show "exception_pending s'" "strings s' = strings s" "process_state s' = process_state s"
    by simp_all
qed

theorem bridge_failure_modes_witness:
  "bridge (Ptr (heap_env 0)) (Ref 5) boot = Returns (NULL, boot\<lparr>exception_pending := True\<rparr>) \<and>
   NewStringUTF (heap_env 0) (boot\<lparr>native_free := native_free boot - heap_bytes greeting\<rparr>)
     (c_str greeting) =
     Some (NULL, boot\<lparr>native_free := native_free boot - heap_bytes greeting,
                      exception_pending := True\<rparr>) \<and>
   native_free (boot\<lparr>native_free := 27\<rparr>) < heap_bytes greeting \<and>
   bridge (Ptr (heap_env 0)) (Ref 5) (boot\<lparr>native_free := 27\<rparr>) = Throws_bad_alloc \<and>
   bridge nullptr (Ref 5) (boot\<lparr>native_free := 27\<rparr>) = Throws_bad_alloc \<and>
   jni_conformant (heap_env 0 :: unit JNIEnv) \<and>
   heap_bytes greeting \<le> native_free boot \<and>
   exception_pending (boot\<lparr>exception_pending := True\<rparr>) \<and>
   strings (boot\<lparr>exception_pending := True\<rparr>) = strings boot \<and>
   process_state (boot\<lparr>exception_pending := True\<rparr>) = process_state boot"
proof -
  have c: "jni_conformant (heap_env 0 :: unit JNIEnv)"
    by (rule heap_env_conformant)
  have b: "bridge (Ptr (heap_env 0)) (Ref 5) boot =
             Returns (NULL, boot\<lparr>exception_pending := True\<rparr>)"
    by (simp add: bridge_heap_env heap_bytes_greeting boot_def)
  have f: "NewStringUTF (heap_env 0)
             (boot\<lparr>native_free := native_free boot - heap_bytes greeting\<rparr>) (c_str greeting) =
           Some (NULL, boot\<lparr>native_free := native_free boot - heap_bytes greeting,
                            exception_pending := True\<rparr>)"
    by (simp add: heap_env_def heap_NewStringUTF_def greeting_decoded)
  have m: "native_free (boot\<lparr>native_free := 27\<rparr>) < heap_bytes greeting"
    "heap_bytes greeting \<le> native_free boot"
    by (simp_all add: heap_bytes_greeting boot_def)
  from bridge_failure_modes[of "Ptr (heap_env 0)" "Ref 5" boot NULL
      "boot\<lparr>exception_pending := True\<rparr>" "heap_env 0"]
    bridge_failure_modes[of "Ptr (heap_env 0)" "Ref 5" "boot\<lparr>native_free := 27\<rparr>"]
    bridge_failure_modes[of nullptr "Ref 5" "boot\<lparr>native_free := 27\<rparr>"]
    c b f m
  show ?thesis by simp
qed

text \<open>
  C4. Under normal conditions (the call returns with no allocation error pending),
  the value returned by the bridge is a valid, non-null text object: a reference to a
  string of the managed heap.
\<close>

theorem bridge_result_non_null:
  assumes "jni_conformant e"
    and "bridge (Ptr e) thiz s = Returns (r, s')"
    and "\<not> exception_pending s'"
  shows "r \<noteq> NULL \<and> string_at s' r \<noteq> None"
proof (cases r)
  case NULL
  with assms bridge_failure[of e thiz s s'] show ?thesis by simp
next
  case (Ref i)
  with assms bridge_success[of e thiz s i s'] show ?thesis
    by (simp add: string_at_def)
qed

theorem bridge_result_non_null_witness:
  "jni_conformant (heap_env 1 :: unit JNIEnv) \<and>
   bridge (Ptr (heap_env 1)) NULL boot =
     Returns (Ref 0, boot\<lparr>strings := [map of_char greeting]\<rparr>) \<and>
   \<not> exception_pending (boot\<lparr>strings := [map of_char greeting]\<rparr>) \<and>
   Ref 0 \<noteq> NULL \<and>
   string_at (boot\<lparr>strings := [map of_char greeting]\<rparr>) (Ref 0) \<noteq> None"
proof -
  have c: "jni_conformant (heap_env 1 :: unit JNIEnv)" by (rule heap_env_conformant)
  have b: "bridge (Ptr (heap_env 1)) NULL boot =
     Returns (Ref 0, boot\<lparr>strings := [map of_char greeting]\<rparr>)"
    by (simp add: bridge_heap_env heap_bytes_greeting boot_def)
  have p: "\<not> exception_pending (boot\<lparr>strings := [map of_char greeting]\<rparr>)"
    by (simp add: boot_def)
  from bridge_result_non_null[OF c b p] c b p show ?thesis by simp
qed

subsection \<open>Effects\<close>

text \<open>
  C5. After any number of invocations of the bridge, no observable process-wide state
  has changed. Whenever a run of calls through a valid handle returns, it has one
  result for each call and has left the process state as it was; the strings that were
  in the managed heap are untouched; the heap has grown by one string object for each
  call that succeeded; when every call succeeded, the exception flag is as before; and
  the native buffer of each call, the one text buffer it allocates, has been released,
  so the native allocator has what it had. Such a run does return when it is entered
  with the native memory for the local string.
\<close>

theorem bridge_frame:
  assumes "jni_conformant e"
  shows "(invocations (Ptr e) callers s = Returns (rs, s') \<longrightarrow>
            length rs = length callers \<and>
            process_state s' = process_state s \<and>
            take (length (strings s)) (strings s') = strings s \<and>
            length (strings s') =
              length (strings s) + length (filter (\<lambda>r. r \<noteq> NULL) rs) \<and>
            (NULL \<notin> set rs \<longrightarrow> exception_pending s' = exception_pending s) \<and>
            native_free s' = native_free s) \<and>
         (heap_bytes greeting \<le> native_free s \<longrightarrow>
            (\<exists>rs s'. invocations (Ptr e) callers s = Returns (rs, s')))"
proof (intro conjI impI)
  assume run: "invocations (Ptr e) callers s = Returns (rs, s')"
  from invocations_frame[OF assms run]
  show "length rs = length callers" "process_state s' = process_state s"
    "take (length (strings s)) (strings s') = strings s"
    "length (strings s') = length (strings s) + length (filter (\<lambda>r. r \<noteq> NULL) rs)"
    "native_free s' = native_free s"
    by simp_all
  assume "NULL \<notin> set rs"
  with invocations_frame[OF assms run]
  show "exception_pending s' = exception_pending s" by simp
next
  assume "heap_bytes greeting \<le> native_free s"
  from invocations_return[OF assms this, of callers]
  show "\<exists>rs s'. invocations (Ptr e) callers s = Returns (rs, s')" by blast
qed

theorem bridge_frame_witness:
  "jni_conformant (heap_env 8 :: unit JNIEnv) \<and>
   heap_bytes greeting \<le> native_free boot \<and>
   invocations (Ptr (heap_env 8)) [NULL, Ref 7, Ref 9] boot =
     Returns ([Ref 0, Ref 1, Ref 2],
       boot\<lparr>strings := [map of_char greeting, map of_char greeting, map of_char greeting]\<rparr>) \<and>
   process_state (boot\<lparr>strings := [map of_char greeting, map of_char greeting, map of_char greeting]\<rparr>) = process_state boot \<and>
   length (strings (boot\<lparr>strings := [map of_char greeting, map of_char greeting, map of_char greeting]\<rparr>)) = 3 \<and>
   NULL \<notin> set [Ref 0, Ref 1, Ref 2] \<and>
   exception_pending (boot\<lparr>strings := [map of_char greeting, map of_char greeting, map of_char greeting]\<rparr>) = exception_pending boot \<and>
   native_free (boot\<lparr>strings := [map of_char greeting, map of_char greeting, map of_char greeting]\<rparr>) = native_free boot"
proof -
  have c: "jni_conformant (heap_env 8 :: unit JNIEnv)" by (rule heap_env_conformant)
  have m: "heap_bytes greeting \<le> native_free boot"
    by (simp add: heap_bytes_greeting boot_def)
  have run: "invocations (Ptr (heap_env 8)) [NULL, Ref 7, Ref 9] boot =
     Returns ([Ref 0, Ref 1, Ref 2],
       boot\<lparr>strings := [map of_char greeting, map of_char greeting, map of_char greeting]\<rparr>)"
    by (simp add: bridge_heap_env heap_bytes_greeting boot_def)
  from bridge_frame[OF c, of "[NULL, Ref 7, Ref 9]" boot "[Ref 0, Ref 1, Ref 2]"
      "boot\<lparr>strings := [map of_char greeting, map of_char greeting, map of_char greeting]\<rparr>"]
    c m run
  show ?thesis by simp
qed

subsection \<open>The exported name\<close>

lemma escape_qualified_example:
  "escape_qualified ''my_pkg.ui.Main_Activity'' = ''my_1pkg_ui_Main_1Activity''"
  by simp

text \<open>
  C6. The exported symbol name of the bridge equals the string produced by the pattern
  \<open><bridge-prefix>_<fully-qualified-caller-type>_<method-name>\<close>, with every
  underscore inside the qualified type name escaped as \<open>_1\<close>, for the bridge prefix
  \<open>Java\<close>, the caller type \<open>com.auraframes.fx.MainActivity\<close> and the method
  \<open>stringFromJNI\<close>.
\<close>

theorem exported_symbol_follows_pattern:
  "exported_symbol =
     bridge_symbol ''Java'' ''com.auraframes.fx.MainActivity'' ''stringFromJNI''"
  by (simp add: exported_symbol_def bridge_symbol_def)

subsection \<open>Termination\<close>

text \<open>
  C7, as the claim states it, does not hold: the bridge does not return
  unconditionally. Through a valid handle, with no native memory for the local string,
  the call is left by \<open>std::bad_alloc\<close> and returns nothing.
\<close>

theorem bridge_no_return_without_memory:
  "bridge (Ptr (heap_env 8 :: unit JNIEnv)) NULL (boot\<lparr>native_free := 0\<rparr>) = Throws_bad_alloc"
  by (simp add: bridge_heap_env heap_bytes_greeting)

text \<open>
  C7, amended. An invocation of the bridge returns exactly when the native memory for
  its local string is there, the environment handle is valid, and its one call of
  \<open>NewStringUTF\<close> comes back; the function has no loop and no recursion of its own, so
  nothing else can keep it. Hence every invocation through a valid handle whose slot
  keeps the contract, entered with that memory, returns, and a caller that invokes it
  any number of times in a row gets one result for each call.
\<close>

theorem bridge_terminates:
  "((\<exists>r s'. bridge env thiz s = Returns (r, s')) =
      (heap_bytes greeting \<le> native_free s \<and>
       (\<exists>e. env = Ptr e \<and>
            NewStringUTF e (s\<lparr>native_free := native_free s - heap_bytes greeting\<rparr>)
              (c_str greeting) \<noteq> None))) \<and>
   (jni_conformant e \<and> heap_bytes greeting \<le> native_free s \<longrightarrow>
      (\<exists>r s'. bridge (Ptr e) thiz s = Returns (r, s')) \<and>
      (\<exists>rs s'. invocations (Ptr e) callers s = Returns (rs, s') \<and>
               length rs = length callers))"
proof (intro conjI impI)
  show "(\<exists>r s'. bridge env thiz s = Returns (r, s')) =
      (heap_bytes greeting \<le> native_free s \<and>
       (\<exists>e. env = Ptr e \<and>
            NewStringUTF e (s\<lparr>native_free := native_free s - heap_bytes greeting\<rparr>)
              (c_str greeting) \<noteq> None))"
  proof
    assume "\<exists>r s'. bridge env thiz s = Returns (r, s')"
    then obtain r s' where "bridge env thiz s = Returns (r, s')" by blast
    from bridge_ReturnsD[OF this] show "heap_bytes greeting \<le> native_free s \<and>
       (\<exists>e. env = Ptr e \<and>
            NewStringUTF e (s\<lparr>native_free := native_free s - heap_bytes greeting\<rparr>)
              (c_str greeting) \<noteq> None)"
      by auto
  next
    assume "heap_bytes greeting \<le> native_free s \<and>
       (\<exists>e. env = Ptr e \<and>
            NewStringUTF e (s\<lparr>native_free := native_free s - heap_bytes greeting\<rparr>)
              (c_str greeting) \<noteq> None)"
    then show "\<exists>r s'. bridge env thiz s = Returns (r, s')"
      by (auto simp: bridge_Ptr)
  qed
next
  assume a: "jni_conformant e \<and> heap_bytes greeting \<le> native_free s"
  then show "\<exists>r s'. bridge (Ptr e) thiz s = Returns (r, s')"
    by (simp add: bridge_conformant_returns)
  from a invocations_return[of e s callers]
  show "\<exists>rs s'. invocations (Ptr e) callers s = Returns (rs, s') \<and>
               length rs = length callers"
    by blast
qed

theorem bridge_terminates_witness:
  "jni_conformant (heap_env 1 :: unit JNIEnv) \<and>
   heap_bytes greeting \<le> native_free boot \<and>
   bridge (Ptr (heap_env 1)) (Ref 4) boot =
     Returns (Ref 0, boot\<lparr>strings := [map of_char greeting]\<rparr>) \<and>
   invocations (Ptr (heap_env 1)) [Ref 4, Ref 6] boot =
     Returns ([Ref 0, NULL],
       boot\<lparr>strings := [map of_char greeting], exception_pending := True\<rparr>) \<and>
   length [Ref 0, NULL] = length [Ref 4, Ref 6] \<and>
   (\<exists>r s'. bridge (Ptr (heap_env 1)) (Ref 4) boot = Returns (r, s')) \<and>
   (\<exists>rs s'. invocations (Ptr (heap_env 1)) [Ref 4, Ref 6] boot = Returns (rs, s'))"
proof -
  have c: "jni_conformant (heap_env 1 :: unit JNIEnv)" by (rule heap_env_conformant)
  have m: "heap_bytes greeting \<le> native_free boot"
    by (simp add: heap_bytes_greeting boot_def)
  have b: "bridge (Ptr (heap_env 1)) (Ref 4) boot =
     Returns (Ref 0, boot\<lparr>strings := [map of_char greeting]\<rparr>)"
    by (simp add: bridge_heap_env heap_bytes_greeting boot_def)
  have run: "invocations (Ptr (heap_env 1)) [Ref 4, Ref 6] boot =
     Returns ([Ref 0, NULL],
       boot\<lparr>strings := [map of_char greeting], exception_pending := True\<rparr>)"
    by (simp add: bridge_heap_env heap_bytes_greeting boot_def)
  from bridge_terminates[of "Ptr (heap_env 1)" "Ref 4" boot "heap_env 1" "[Ref 4, Ref 6]"]
    c m b run
  show ?thesis by simp
qed

subsection \<open>The environment handle\<close>

text \<open>
  C9, as the claim states it, does not hold in one case: with a null environment
  handle and no native memory for the local string, the call is left by
  \<open>std::bad_alloc\<close> at line 18, before the handle is touched, and is not undefined.
\<close>

theorem bridge_null_handle_bad_alloc:
  "bridge (nullptr :: unit JNIEnv pointer) NULL (boot\<lparr>native_free := 0\<rparr>) = Throws_bad_alloc \<and>
   bridge (nullptr :: unit JNIEnv pointer) NULL (boot\<lparr>native_free := 0\<rparr>) \<noteq>
     Undefined_Behaviour"
  by (simp add: bridge_nullptr heap_bytes_greeting)

text \<open>
  C9, amended. The bridge dereferences the environment handle without a null or
  validity check, so a valid handle is a precondition of its returning at all: whatever
  it returns, it returns through a valid handle. With a null handle, or a non-null one
  that points to no environment, the call never returns an error value: once the local
  string is built the dereference is undefined behaviour, and only when the string
  cannot be built is the call left by \<open>std::bad_alloc\<close> before the handle is touched.
\<close>

theorem bridge_handle_unchecked:
  "(bridge env thiz s = Returns x \<longrightarrow> (\<exists>e. env = Ptr e)) \<and>
   bridge nullptr thiz s =
     (if heap_bytes greeting \<le> native_free s then Undefined_Behaviour
      else Throws_bad_alloc) \<and>
   bridge (Invalid a) thiz s =
     (if heap_bytes greeting \<le> native_free s then Undefined_Behaviour
      else Throws_bad_alloc)"
proof (intro conjI impI)
  assume "bridge env thiz s = Returns x"
  then have "bridge env thiz s = Returns (fst x, snd x)" by simp
  from bridge_ReturnsD[OF this] show "\<exists>e. env = Ptr e" by blast
next
  show "bridge nullptr thiz s =
     (if heap_bytes greeting \<le> native_free s then Undefined_Behaviour
      else Throws_bad_alloc)"
    by (rule bridge_nullptr)
  show "bridge (Invalid a) thiz s =
     (if heap_bytes greeting \<le> native_free s then Undefined_Behaviour
      else Throws_bad_alloc)"
    by (rule bridge_Invalid)
qed

theorem bridge_handle_unchecked_witness:
  "bridge (Ptr (heap_env 4)) (Ref 2) boot =
     Returns (Ref 0, boot\<lparr>strings := [map of_char greeting]\<rparr>) \<and>
   (\<exists>e. Ptr (heap_env 4 :: unit JNIEnv) = Ptr e) \<and>
   bridge (nullptr :: unit JNIEnv pointer) (Ref 2) boot = Undefined_Behaviour \<and>
   bridge (Invalid 57005 :: unit JNIEnv pointer) (Ref 2) boot = Undefined_Behaviour"
proof -
  have b: "bridge (Ptr (heap_env 4)) (Ref 2) boot =
     Returns (Ref 0, boot\<lparr>strings := [map of_char greeting]\<rparr>)"
    by (simp add: bridge_heap_env heap_bytes_greeting boot_def)
  have m: "heap_bytes greeting \<le> native_free boot"
    by (simp add: heap_bytes_greeting boot_def)
  from bridge_handle_unchecked[of "Ptr (heap_env 4)" "Ref 2" boot
      "(Ref 0, boot\<lparr>strings := [map of_char greeting]\<rparr>)" 57005] b m
  show ?thesis by simp
qed

end
